theory Spec2Isabelle
  imports Main
begin

section \<open>Cyrus: a response cache in front of request handlers\<close>

text \<open>
  A shallow embedding of the Python sources \<^verbatim>\<open>Cyrus/util.py\<close>, \<^verbatim>\<open>Cyrus/redis.py\<close>,
  \<^verbatim>\<open>Cyrus/client.py\<close>, \<^verbatim>\<open>Cyrus/cache.py\<close> and \<^verbatim>\<open>Perseus/key_gen.py\<close>.
  Python values are a datatype, exceptions are the left summand of a sum type, the
  Redis server and the singleton registry are explicit state.
\<close>

subsection \<open>Time constants and the time-to-live (util.py, cache.py)\<close>

definition ONE_HOUR_IN_SECONDS :: int where
  "ONE_HOUR_IN_SECONDS = 3600"

definition ONE_DAY_IN_SECONDS :: int where
  "ONE_DAY_IN_SECONDS = ONE_HOUR_IN_SECONDS * 24"

definition ONE_WEEK_IN_SECONDS :: int where
  "ONE_WEEK_IN_SECONDS = ONE_DAY_IN_SECONDS * 7"

definition ONE_MONTH_IN_SECONDS :: int where
  "ONE_MONTH_IN_SECONDS = ONE_DAY_IN_SECONDS * 30"

definition ONE_YEAR_IN_SECONDS :: int where
  "ONE_YEAR_IN_SECONDS = ONE_DAY_IN_SECONDS * 365"

text \<open>
  A \<^verbatim>\<open>datetime.timedelta\<close> holds days, seconds and microseconds. Its
  \<^verbatim>\<open>total_seconds()\<close> is the quotient of its length in microseconds by \<open>10^6\<close>, and
  \<^verbatim>\<open>int(...)\<close> drops the fraction towards zero. (Python computes the quotient in
  floating point; the model computes it exactly.)
\<close>

record timedelta =
  td_days :: int
  td_seconds :: int
  td_microseconds :: int

definition total_microseconds :: "timedelta \<Rightarrow> int" where
  "total_microseconds td =
     (td_days td * 86400 + td_seconds td) * 1000000 + td_microseconds td"

definition int_total_seconds :: "timedelta \<Rightarrow> int" where
  "int_total_seconds td =
     (let us = total_microseconds td
      in if 0 \<le> us then us div 1000000 else - ((- us) div 1000000))"

text \<open>The decorator's \<^verbatim>\<open>expire: Union[int, timedelta]\<close>.\<close>

datatype expire = Seconds int | Duration timedelta

fun calculate_ttl :: "expire \<Rightarrow> int" where
  "calculate_ttl (Duration td) = min (int_total_seconds td) ONE_YEAR_IN_SECONDS"
| "calculate_ttl (Seconds n) = min n ONE_YEAR_IN_SECONDS"

subsection \<open>Text\<close>

text \<open>
  Python strings are modelled as \<open>string\<close>; the model keeps to ASCII text, where a
  character of the model is a code point of Python.
\<close>

definition digit_char :: "nat \<Rightarrow> char" where
  "digit_char d = ''0123456789abcdef'' ! d"

fun show_nat :: "nat \<Rightarrow> string" where
  "show_nat n = (if n < 10 then [digit_char n] else show_nat (n div 10) @ [digit_char (n mod 10)])"

declare show_nat.simps [simp del]

definition show_int :: "int \<Rightarrow> string" where
  "show_int i = (if i < 0 then CHR ''-'' # show_nat (nat (- i)) else show_nat (nat i))"

definition pad2 :: "nat \<Rightarrow> string" where
  "pad2 n = (if n < 10 then CHR ''0'' # show_nat n else show_nat n)"

definition pad4 :: "nat \<Rightarrow> string" where
  "pad4 n = replicate (4 - length (show_nat n)) (CHR ''0'') @ show_nat n"

definition hex2 :: "nat \<Rightarrow> string" where
  "hex2 n = [digit_char (n div 16 mod 16), digit_char (n mod 16)]"

text \<open>\<^verbatim>\<open>sep.join(items)\<close>.\<close>

fun join :: "string \<Rightarrow> string list \<Rightarrow> string" where
  "join sep [] = []"
| "join sep [x] = x"
| "join sep (x # y # ys) = x @ sep @ join sep (y # ys)"

text \<open>\<^verbatim>\<open>s.split(c)\<close> for a separator of one character.\<close>

fun split_on :: "char \<Rightarrow> string \<Rightarrow> string list" where
  "split_on c [] = [[]]"
| "split_on c (x # xs) =
     (if x = c then [] # split_on c xs
      else (case split_on c xs of [] \<Rightarrow> [[x]] | w # ws \<Rightarrow> (x # w) # ws))"

definition is_space :: "char \<Rightarrow> bool" where
  "is_space c = (c = CHR '' '' \<or> c = CHR 0x09 \<or> c = CHR 0x0A \<or> c = CHR 0x0B
                 \<or> c = CHR 0x0C \<or> c = CHR 0x0D)"

text \<open>\<^verbatim>\<open>s.strip()\<close>.\<close>

definition strip :: "string \<Rightarrow> string" where
  "strip s = rev (dropWhile is_space (rev (dropWhile is_space s)))"

fun starts_with :: "string \<Rightarrow> string \<Rightarrow> bool" where
  "starts_with [] s = True"
| "starts_with (p # ps) [] = False"
| "starts_with (p # ps) (c # cs) = (p = c \<and> starts_with ps cs)"

text \<open>\<^verbatim>\<open>sub in s\<close> on strings: \<open>sub\<close> occurs in \<open>s\<close>.\<close>

fun str_contains :: "string \<Rightarrow> string \<Rightarrow> bool" where
  "str_contains sub [] = (sub = [])"
| "str_contains sub (c # cs) = (starts_with sub (c # cs) \<or> str_contains sub cs)"

subsection \<open>Python values\<close>

text \<open>The exceptions the modelled code raises or lets through.\<close>

datatype error =
    TypeError | AttributeError | KeyError | JSONDecodeError | RecursionError
  | ParserError | InvalidOperation | AuthenticationError | ConnectionError | ResponseError
  | IndexError

text \<open>
  \<^verbatim>\<open>datetime.datetime\<close>: the fields, and the offset from UTC in minutes when the value
  is timezone-aware. \<^verbatim>\<open>datetime.date\<close>: the three fields.
\<close>

record py_datetime =
  dt_year :: nat
  dt_month :: nat
  dt_day :: nat
  dt_hour :: nat
  dt_minute :: nat
  dt_second :: nat
  dt_microsecond :: nat
  dt_utcoffset :: "int option"

record py_date =
  d_year :: nat
  d_month :: nat
  d_day :: nat

text \<open>
  The request and response carriers of the web framework: a method and headers on the
  request; a status code, headers, a body and a media type on the response. Header names
  are stored as the code spells them. The value of a header is a text, or an instant
  (seconds since the epoch) that \<^verbatim>\<open>strftime(HTTP_TIME)\<close> renders as an HTTP date.
\<close>

datatype header_value = Text string | HttpTime int

record request =
  req_method :: string
  req_headers :: "(string \<times> string) list"

record response =
  status_code :: int
  headers :: "(string \<times> header_value) list"
  content :: string
  media_type :: "string option"

text \<open>
  Classes of instances whose attributes the code reads through \<^verbatim>\<open>__dict__\<close>: the ORM's
  \<^verbatim>\<open>InstanceState\<close>, a pydantic \<^verbatim>\<open>BaseModel\<close>, any other class.
\<close>

datatype pyclass = InstanceState | BaseModel | OtherClass

text \<open>
  The values. A dictionary is an association list with string keys, in insertion order.
  A decimal and a UUID are given by their text (\<^verbatim>\<open>str(d)\<close>); a member of an enumeration
  by its name (\<^verbatim>\<open>Color.RED\<close>) and its value; an instance by its class, the text that
  \<^verbatim>\<open>str\<close> gives for it, and its \<^verbatim>\<open>__dict__\<close>.
\<close>

datatype pyval =
    PNone
  | PBool bool
  | PInt int
  | PStr string
  | PList "pyval list"
  | PDict "(string \<times> pyval) list"
  | PDatetime py_datetime
  | PDate py_date
  | PDecimal string
  | PUUID string
  | PEnum string pyval
  | PObj pyclass string "(string \<times> pyval) list"
  | PRequest request
  | PResponse response

text \<open>Truth value testing, as \<^verbatim>\<open>not x\<close>, \<^verbatim>\<open>x and y\<close> and \<^verbatim>\<open>if x\<close> do it.\<close>

fun truthy :: "pyval \<Rightarrow> bool" where
  "truthy PNone = False"
| "truthy (PBool b) = b"
| "truthy (PInt i) = (i \<noteq> 0)"
| "truthy (PStr s) = (s \<noteq> [])"
| "truthy (PList xs) = (xs \<noteq> [])"
| "truthy (PDict kvs) = (kvs \<noteq> [])"
| "truthy (PDecimal s) = list_ex (\<lambda>c. c \<in> set ''123456789'') s"
| "truthy v = True"

text \<open>
  \<^verbatim>\<open>hasattr(v, "__len__")\<close>. (A request object is a mapping over data of the web
  server that the model does not hold; it is taken to have no length.)
\<close>

fun has_len :: "pyval \<Rightarrow> bool" where
  "has_len (PStr s) = True"
| "has_len (PList xs) = True"
| "has_len (PDict kvs) = True"
| "has_len v = False"

text \<open>
  \<^verbatim>\<open>v.__dict__\<close>: the attributes of an instance; the built-in values, decimals, UUIDs,
  dates and times have none. A member of an enumeration holds its value and its name.
  The attributes of a request or response object are not modelled.
\<close>

fun dunder_dict :: "pyval \<Rightarrow> error + (string \<times> pyval) list" where
  "dunder_dict (PObj c t attrs) = Inr attrs"
| "dunder_dict (PEnum n v) = Inr [(''_value_'', v), (''_name_'', PStr n)]"
| "dunder_dict (PRequest r) = Inr []"
| "dunder_dict (PResponse r) = Inr []"
| "dunder_dict v = Inl AttributeError"

text \<open>
  \<^verbatim>\<open>for obj in v\<close>: the elements of a list, the keys of a dictionary, the characters of
  a string; anything else is not iterable.
\<close>

fun iterate :: "pyval \<Rightarrow> error + pyval list" where
  "iterate (PList xs) = Inr xs"
| "iterate (PDict kvs) = Inr (map (\<lambda>kv. PStr (fst kv)) kvs)"
| "iterate (PStr s) = Inr (map (\<lambda>c. PStr [c]) s)"
| "iterate v = Inl TypeError"

text \<open>Running a fallible function over a list, stopping at the first exception.\<close>

fun map_result :: "('a \<Rightarrow> error + 'b) \<Rightarrow> 'a list \<Rightarrow> error + 'b list" where
  "map_result f [] = Inr []"
| "map_result f (x # xs) =
     (case f x of
        Inl e \<Rightarrow> Inl e
      | Inr y \<Rightarrow> (case map_result f xs of Inl e \<Rightarrow> Inl e | Inr ys \<Rightarrow> Inr (y # ys)))"

subsection \<open>\<^verbatim>\<open>repr\<close> and \<^verbatim>\<open>str\<close>\<close>

text \<open>
  \<^verbatim>\<open>repr\<close> of a string: single quotes, unless the text has a single quote and no double
  quote; the quote in use and the backslash are escaped, control characters are written
  as escapes.
\<close>

definition repr_char :: "char \<Rightarrow> char \<Rightarrow> string" where
  "repr_char q c =
     (if c = q \<or> c = CHR 0x5C then [CHR 0x5C, c]
      else if c = CHR 0x0A then [CHR 0x5C, CHR ''n'']
      else if c = CHR 0x0D then [CHR 0x5C, CHR ''r'']
      else if c = CHR 0x09 then [CHR 0x5C, CHR ''t'']
      else if of_char c < (32 :: nat) \<or> (126 :: nat) < of_char c
        then [CHR 0x5C, CHR ''x''] @ hex2 (of_char c)
      else [c])"

definition repr_str :: "string \<Rightarrow> string" where
  "repr_str s =
     (let q = (if CHR 0x27 \<in> set s \<and> CHR 0x22 \<notin> set s then CHR 0x22 else CHR 0x27)
      in q # concat (map (repr_char q) s) @ [q])"

text \<open>\<^verbatim>\<open>str\<close> of a date and of a time: the ISO form, a space between date and time.\<close>

definition date_iso :: "nat \<Rightarrow> nat \<Rightarrow> nat \<Rightarrow> string" where
  "date_iso y m d = pad4 y @ ''-'' @ pad2 m @ ''-'' @ pad2 d"

definition offset_text :: "string \<Rightarrow> int option \<Rightarrow> string" where
  "offset_text colon off =
     (case off of
        None \<Rightarrow> []
      | Some m \<Rightarrow>
          (if m < 0 then ''-'' else ''+'') @ pad2 (nat \<bar>m\<bar> div 60) @ colon @ pad2 (nat \<bar>m\<bar> mod 60))"

definition datetime_str :: "py_datetime \<Rightarrow> string" where
  "datetime_str d =
     date_iso (dt_year d) (dt_month d) (dt_day d) @ '' ''
     @ pad2 (dt_hour d) @ '':'' @ pad2 (dt_minute d) @ '':'' @ pad2 (dt_second d)
     @ (if dt_microsecond d = 0 then []
        else ''.'' @ replicate (6 - length (show_nat (dt_microsecond d))) (CHR ''0'')
             @ show_nat (dt_microsecond d))
     @ offset_text '':'' (dt_utcoffset d)"

text \<open>
  \<^verbatim>\<open>repr\<close> of a time, its time zone printed as a \<^verbatim>\<open>datetime.timezone\<close>; \<^verbatim>\<open>repr\<close> of
  a date.
\<close>

definition tzinfo_repr :: "int \<Rightarrow> string" where
  "tzinfo_repr m =
     (if m = 0 then ''datetime.timezone.utc''
      else if 0 < m then ''datetime.timezone(datetime.timedelta(seconds='' @ show_int (m * 60) @ ''))''
      else ''datetime.timezone(datetime.timedelta(days=-1, seconds=''
           @ show_int (86400 + m * 60) @ ''))'')"

definition datetime_repr :: "py_datetime \<Rightarrow> string" where
  "datetime_repr d =
     ''datetime.datetime('' @ show_nat (dt_year d) @ '', '' @ show_nat (dt_month d)
     @ '', '' @ show_nat (dt_day d) @ '', '' @ show_nat (dt_hour d)
     @ '', '' @ show_nat (dt_minute d)
     @ (if dt_second d = 0 \<and> dt_microsecond d = 0 then []
        else '', '' @ show_nat (dt_second d))
     @ (if dt_microsecond d = 0 then [] else '', '' @ show_nat (dt_microsecond d))
     @ (case dt_utcoffset d of None \<Rightarrow> [] | Some m \<Rightarrow> '', tzinfo='' @ tzinfo_repr m)
     @ '')''"

definition date_repr :: "py_date \<Rightarrow> string" where
  "date_repr d =
     ''datetime.date('' @ show_nat (d_year d) @ '', '' @ show_nat (d_month d)
     @ '', '' @ show_nat (d_day d) @ '')''"

text \<open>
  \<^verbatim>\<open>repr(v)\<close>. The default text of a request or response object also names its address,
  which the model leaves out.
\<close>

fun repr :: "pyval \<Rightarrow> string"
  and repr_elems :: "pyval list \<Rightarrow> string list"
  and repr_items :: "(string \<times> pyval) list \<Rightarrow> string list" where
  "repr PNone = ''None''"
| "repr (PBool b) = (if b then ''True'' else ''False'')"
| "repr (PInt i) = show_int i"
| "repr (PStr s) = repr_str s"
| "repr (PList xs) = ''['' @ join '', '' (repr_elems xs) @ '']''"
| "repr (PDict kvs) = ''{'' @ join '', '' (repr_items kvs) @ ''}''"
| "repr (PDatetime d) = datetime_repr d"
| "repr (PDate d) = date_repr d"
| "repr (PDecimal s) = ''Decimal('' @ repr_str s @ '')''"
| "repr (PUUID s) = ''UUID('' @ repr_str s @ '')''"
| "repr (PEnum n v) = ''<'' @ n @ '': '' @ repr v @ ''>''"
| "repr (PObj c t attrs) = t"
| "repr (PRequest r) = ''<starlette.requests.Request object>''"
| "repr (PResponse r) = ''<starlette.responses.Response object>''"
| "repr_elems [] = []"
| "repr_elems (x # xs) = repr x # repr_elems xs"
| "repr_items [] = []"
| "repr_items ((k, v) # kvs) = (repr_str k @ '': '' @ repr v) # repr_items kvs"

text \<open>\<^verbatim>\<open>str(v)\<close>, which an f-string applies to the value it formats.\<close>

fun str_of :: "pyval \<Rightarrow> string" where
  "str_of (PStr s) = s"
| "str_of (PDatetime d) = datetime_str d"
| "str_of (PDate d) = date_iso (d_year d) (d_month d) (d_day d)"
| "str_of (PDecimal s) = s"
| "str_of (PUUID s) = s"
| "str_of (PEnum n v) = n"
| "str_of v = repr v"

subsection \<open>The JSON library\<close>

text \<open>
  \<^verbatim>\<open>json.dumps(v)\<close> with its defaults: separators \<^verbatim>\<open>", "\<close> and \<^verbatim>\<open>": "\<close>, every
  character outside the printable ASCII range escaped, and a \<^verbatim>\<open>TypeError\<close> for a value
  that is not \<^verbatim>\<open>None\<close>, a truth value, an integer, a string, a list or a dictionary
  (a member of an enumeration is taken to be of a plain \<^verbatim>\<open>Enum\<close>).
\<close>

definition json_escape_char :: "char \<Rightarrow> string" where
  "json_escape_char c =
     (if c = CHR 0x22 then [CHR 0x5C, CHR 0x22]
      else if c = CHR 0x5C then [CHR 0x5C, CHR 0x5C]
      else if c = CHR 0x0A then [CHR 0x5C, CHR ''n'']
      else if c = CHR 0x0D then [CHR 0x5C, CHR ''r'']
      else if c = CHR 0x09 then [CHR 0x5C, CHR ''t'']
      else if c = CHR 0x08 then [CHR 0x5C, CHR ''b'']
      else if c = CHR 0x0C then [CHR 0x5C, CHR ''f'']
      else if of_char c < (32 :: nat) \<or> (126 :: nat) < of_char c
        then [CHR 0x5C, CHR ''u'', CHR ''0'', CHR ''0''] @ hex2 (of_char c)
      else [c])"

definition json_string :: "string \<Rightarrow> string" where
  "json_string s = CHR 0x22 # concat (map json_escape_char s) @ [CHR 0x22]"

fun json_dumps :: "pyval \<Rightarrow> error + string"
  and dumps_elems :: "pyval list \<Rightarrow> error + string list"
  and dumps_items :: "(string \<times> pyval) list \<Rightarrow> error + string list" where
  "json_dumps PNone = Inr ''null''"
| "json_dumps (PBool b) = Inr (if b then ''true'' else ''false'')"
| "json_dumps (PInt i) = Inr (show_int i)"
| "json_dumps (PStr s) = Inr (json_string s)"
| "json_dumps (PList xs) =
     (case dumps_elems xs of Inl e \<Rightarrow> Inl e | Inr ts \<Rightarrow> Inr (''['' @ join '', '' ts @ '']''))"
| "json_dumps (PDict kvs) =
     (case dumps_items kvs of Inl e \<Rightarrow> Inl e | Inr ts \<Rightarrow> Inr (''{'' @ join '', '' ts @ ''}''))"
| "json_dumps (PDatetime d) = Inl TypeError"
| "json_dumps (PDate d) = Inl TypeError"
| "json_dumps (PDecimal s) = Inl TypeError"
| "json_dumps (PUUID s) = Inl TypeError"
| "json_dumps (PEnum n v) = Inl TypeError"
| "json_dumps (PObj c t attrs) = Inl TypeError"
| "json_dumps (PRequest r) = Inl TypeError"
| "json_dumps (PResponse r) = Inl TypeError"
| "dumps_elems [] = Inr []"
| "dumps_elems (x # xs) =
     (case json_dumps x of
        Inl e \<Rightarrow> Inl e
      | Inr t \<Rightarrow> (case dumps_elems xs of Inl e \<Rightarrow> Inl e | Inr ts \<Rightarrow> Inr (t # ts)))"
| "dumps_items [] = Inr []"
| "dumps_items ((k, v) # kvs) =
     (case json_dumps v of
        Inl e \<Rightarrow> Inl e
      | Inr t \<Rightarrow>
          (case dumps_items kvs of
             Inl e \<Rightarrow> Inl e
           | Inr ts \<Rightarrow> Inr ((json_string k @ '': '' @ t) # ts)))"

text \<open>
  \<^verbatim>\<open>json.loads(text, object_hook=hook)\<close>: a recursive-descent reader. Each decoded object
  is handed to the hook, whose result (or exception) takes its place. A key written twice
  keeps its first place and its last value, as a Python dictionary does. Numbers with a
  fraction or an exponent, \<^verbatim>\<open>NaN\<close> and \<^verbatim>\<open>Infinity\<close> are floating point and outside the
  model: the reader stops before them. The first argument bounds the depth of the recursion; \<open>json_loads\<close>
  starts it at the length of the text.
\<close>

fun dict_set :: "(string \<times> 'v) list \<Rightarrow> string \<Rightarrow> 'v \<Rightarrow> (string \<times> 'v) list" where
  "dict_set [] k v = [(k, v)]"
| "dict_set ((k', v') # kvs) k v =
     (if k' = k then (k, v) # kvs else (k', v') # dict_set kvs k v)"

fun skip_ws :: "string \<Rightarrow> string" where
  "skip_ws [] = []"
| "skip_ws (c # cs) =
     (if c = CHR '' '' \<or> c = CHR 0x09 \<or> c = CHR 0x0A \<or> c = CHR 0x0D
      then skip_ws cs else c # cs)"

definition hex_val :: "char \<Rightarrow> nat option" where
  "hex_val c =
     (let n = (of_char c :: nat)
      in if 48 \<le> n \<and> n \<le> 57 then Some (n - 48)
         else if 97 \<le> n \<and> n \<le> 102 then Some (n - 87)
         else if 65 \<le> n \<and> n \<le> 70 then Some (n - 55)
         else None)"

definition unescape :: "char \<Rightarrow> char option" where
  "unescape e =
     (if e = CHR 0x22 \<or> e = CHR 0x5C \<or> e = CHR ''/'' then Some e
      else if e = CHR ''n'' then Some (CHR 0x0A)
      else if e = CHR ''r'' then Some (CHR 0x0D)
      else if e = CHR ''t'' then Some (CHR 0x09)
      else if e = CHR ''b'' then Some (CHR 0x08)
      else if e = CHR ''f'' then Some (CHR 0x0C)
      else None)"

text \<open>The text of a string after its opening quote: the string and what follows it.\<close>

fun read_string :: "string \<Rightarrow> (string \<times> string) option" where
  "read_string [] = None"
| "read_string (c # cs) =
     (if c = CHR 0x22 then Some ([], cs)
      else if c = CHR 0x5C then
        (case cs of
           [] \<Rightarrow> None
         | e # cs' \<Rightarrow>
             (if e = CHR ''u'' then
                (case cs' of
                   h1 # h2 # h3 # h4 # r \<Rightarrow>
                     (case (hex_val h1, hex_val h2, hex_val h3, hex_val h4) of
                        (Some 0, Some 0, Some a, Some b) \<Rightarrow>
                          map_option (\<lambda>p. (char_of (a * 16 + b) # fst p, snd p)) (read_string r)
                      | _ \<Rightarrow> None)
                 | _ \<Rightarrow> None)
              else
                (case unescape e of
                   None \<Rightarrow> None
                 | Some ch \<Rightarrow> map_option (\<lambda>p. (ch # fst p, snd p)) (read_string cs'))))
      else if of_char c < (32 :: nat) then None
      else map_option (\<lambda>p. (c # fst p, snd p)) (read_string cs))"

definition is_digit :: "char \<Rightarrow> bool" where
  "is_digit c = (48 \<le> (of_char c :: nat) \<and> (of_char c :: nat) \<le> 57)"

fun digits_value :: "nat \<Rightarrow> string \<Rightarrow> nat" where
  "digits_value acc [] = acc"
| "digits_value acc (c # cs) = digits_value (acc * 10 + (of_char c - 48)) cs"

text \<open>An integer literal: an optional sign, then \<^verbatim>\<open>0\<close> or digits not starting with 0.\<close>

definition read_int :: "string \<Rightarrow> (int \<times> string) option" where
  "read_int s =
     (let neg = (s \<noteq> [] \<and> hd s = CHR ''-'');
          body = (if neg then tl s else s);
          ds = (if body \<noteq> [] \<and> hd body = CHR ''0'' then ''0'' else takeWhile is_digit body);
          rest = drop (length ds) body
      in if ds = [] then None
         else if rest \<noteq> [] \<and> (hd rest = CHR ''.'' \<or> hd rest = CHR ''e'' \<or> hd rest = CHR ''E'')
           then None
         else Some ((if neg then - int (digits_value 0 ds) else int (digits_value 0 ds)), rest))"

type_synonym object_hook = "(string \<times> pyval) list \<Rightarrow> error + pyval"

fun read_value :: "nat \<Rightarrow> object_hook \<Rightarrow> string \<Rightarrow> error + (pyval \<times> string)"
  and read_elems :: "nat \<Rightarrow> object_hook \<Rightarrow> pyval list \<Rightarrow> string \<Rightarrow> error + (pyval \<times> string)"
  and read_members ::
    "nat \<Rightarrow> object_hook \<Rightarrow> (string \<times> pyval) list \<Rightarrow> string \<Rightarrow> error + (pyval \<times> string)" where
  "read_value 0 hook s = Inl RecursionError"
| "read_value (Suc n) hook s =
     (if starts_with ''null'' s then Inr (PNone, drop 4 s)
      else if starts_with ''true'' s then Inr (PBool True, drop 4 s)
      else if starts_with ''false'' s then Inr (PBool False, drop 5 s)
      else
        (case s of
           [] \<Rightarrow> Inl JSONDecodeError
         | c # cs \<Rightarrow>
             (if c = CHR 0x22 then
                (case read_string cs of
                   None \<Rightarrow> Inl JSONDecodeError
                 | Some (t, r) \<Rightarrow> Inr (PStr t, r))
              else if c = CHR ''['' then
                (if starts_with '']'' (skip_ws cs) then Inr (PList [], drop 1 (skip_ws cs))
                 else read_elems n hook [] (skip_ws cs))
              else if c = CHR ''{'' then
                (if starts_with ''}'' (skip_ws cs)
                 then (case hook [] of Inl e \<Rightarrow> Inl e | Inr v \<Rightarrow> Inr (v, drop 1 (skip_ws cs)))
                 else read_members n hook [] (skip_ws cs))
              else
                (case read_int s of
                   None \<Rightarrow> Inl JSONDecodeError
                 | Some (i, r) \<Rightarrow> Inr (PInt i, r)))))"
| "read_elems 0 hook acc s = Inl RecursionError"
| "read_elems (Suc n) hook acc s =
     (case read_value n hook s of
        Inl e \<Rightarrow> Inl e
      | Inr (v, r) \<Rightarrow>
          (case skip_ws r of
             [] \<Rightarrow> Inl JSONDecodeError
           | c # cs \<Rightarrow>
               (if c = CHR '']'' then Inr (PList (acc @ [v]), cs)
                else if c = CHR '','' then read_elems n hook (acc @ [v]) (skip_ws cs)
                else Inl JSONDecodeError)))"
| "read_members 0 hook acc s = Inl RecursionError"
| "read_members (Suc n) hook acc s =
     (case s of
        [] \<Rightarrow> Inl JSONDecodeError
      | q # s' \<Rightarrow>
          (if q \<noteq> CHR 0x22 then Inl JSONDecodeError
           else
             (case read_string s' of
                None \<Rightarrow> Inl JSONDecodeError
              | Some (k, r) \<Rightarrow>
                  (case skip_ws r of
                     [] \<Rightarrow> Inl JSONDecodeError
                   | c # cs \<Rightarrow>
                       (if c \<noteq> CHR '':'' then Inl JSONDecodeError
                        else
                          (case read_value n hook (skip_ws cs) of
                             Inl e \<Rightarrow> Inl e
                           | Inr (v, r') \<Rightarrow>
                               (case skip_ws r' of
                                  [] \<Rightarrow> Inl JSONDecodeError
                                | c' # cs' \<Rightarrow>
                                    (if c' = CHR ''}'' then
                                       (case hook (dict_set acc k v) of
                                          Inl e \<Rightarrow> Inl e
                                        | Inr obj \<Rightarrow> Inr (obj, cs'))
                                     else if c' = CHR '','' then
                                       read_members n hook (dict_set acc k v) (skip_ws cs')
                                     else Inl JSONDecodeError))))))))"

definition json_loads :: "object_hook \<Rightarrow> string \<Rightarrow> error + pyval" where
  "json_loads hook s =
     (case read_value (Suc (length s)) hook (skip_ws s) of
        Inl e \<Rightarrow> Inl e
      | Inr (v, r) \<Rightarrow> (if skip_ws r = [] then Inr v else Inl JSONDecodeError))"

text \<open>Without a hook every object is a dictionary.\<close>

definition no_hook :: object_hook where
  "no_hook kvs = Inr (PDict kvs)"

subsection \<open>The serialization envelope (util.py)\<close>

text \<open>
  \<^verbatim>\<open>value.strftime(DATETIME_AWARE)\<close> with \<^verbatim>\<open>"%m/%d/%Y %I:%M:%S %p %z"\<close>, and
  \<^verbatim>\<open>strftime(DATE_ONLY)\<close> with \<^verbatim>\<open>"%m/%d/%Y"\<close>. The format has no field for the
  microseconds; \<^verbatim>\<open>%z\<close> is empty for a value without a time zone; \<^verbatim>\<open>%Y\<close> is the year
  without padding, as the C library prints it.
\<close>

definition strftime_date_only :: "nat \<Rightarrow> nat \<Rightarrow> nat \<Rightarrow> string" where
  "strftime_date_only y m d = pad2 m @ ''/'' @ pad2 d @ ''/'' @ show_nat y"

definition strftime_datetime_aware :: "py_datetime \<Rightarrow> string" where
  "strftime_datetime_aware d =
     strftime_date_only (dt_year d) (dt_month d) (dt_day d) @ '' ''
     @ pad2 (if dt_hour d mod 12 = 0 then 12 else dt_hour d mod 12)
     @ '':'' @ pad2 (dt_minute d) @ '':'' @ pad2 (dt_second d) @ '' ''
     @ (if dt_hour d < 12 then ''AM'' else ''PM'') @ '' ''
     @ offset_text [] (dt_utcoffset d)"

text \<open>\<^verbatim>\<open>str(datetime)\<close>, \<^verbatim>\<open>str(date)\<close> and \<^verbatim>\<open>str(Decimal)\<close>: the type tags.\<close>

definition str_datetime_class :: string where
  "str_datetime_class = ''<class '' @ [CHR 0x27] @ ''datetime.datetime'' @ [CHR 0x27] @ ''>''"

definition str_date_class :: string where
  "str_date_class = ''<class '' @ [CHR 0x27] @ ''datetime.date'' @ [CHR 0x27] @ ''>''"

definition str_Decimal_class :: string where
  "str_Decimal_class = ''<class '' @ [CHR 0x27] @ ''decimal.Decimal'' @ [CHR 0x27] @ ''>''"

text \<open>
  The loop over the items of a dictionary in \<^verbatim>\<open>CustomJsonEncoder\<close>: an
  \<^verbatim>\<open>InstanceState\<close> is dropped, a \<^verbatim>\<open>datetime\<close> becomes its formatted text, a member
  of an enumeration its value, anything else is kept as it is.
\<close>

fun encode_items :: "(string \<times> pyval) list \<Rightarrow> (string \<times> pyval) list" where
  "encode_items [] = []"
| "encode_items ((key, PObj InstanceState t a) # kvs) = encode_items kvs"
| "encode_items ((key, PDatetime d) # kvs) =
     (key, PStr (strftime_datetime_aware d)) # encode_items kvs"
| "encode_items ((key, PEnum n v) # kvs) = (key, v) # encode_items kvs"
| "encode_items ((key, value) # kvs) = (key, value) # encode_items kvs"

text \<open>
  \<^verbatim>\<open>CustomJsonEncoder(obj)\<close>. \<^verbatim>\<open>obj.dict()\<close> of a pydantic model is taken to be the
  dictionary of its fields.
\<close>

fun CustomJsonEncoder :: "pyval \<Rightarrow> pyval" where
  "CustomJsonEncoder (PDict kvs) = PDict (encode_items kvs)"
| "CustomJsonEncoder (PList xs) = PList (map CustomJsonEncoder xs)"
| "CustomJsonEncoder (PDatetime d) =
     PDict [(''val'', PStr (strftime_datetime_aware d)), (''_spec_type'', PStr str_datetime_class)]"
| "CustomJsonEncoder (PDate d) =
     PDict [(''val'', PStr (strftime_date_only (d_year d) (d_month d) (d_day d))),
            (''_spec_type'', PStr str_date_class)]"
| "CustomJsonEncoder (PDecimal s) =
     PDict [(''val'', PStr s), (''_spec_type'', PStr str_Decimal_class)]"
| "CustomJsonEncoder (PObj BaseModel t attrs) = PDict attrs"
| "CustomJsonEncoder (PUUID s) = PStr s"
| "CustomJsonEncoder (PEnum n v) = PStr (str_of v)"
| "CustomJsonEncoder obj = obj"

text \<open>
  \<^verbatim>\<open>dateutil.parser.parse\<close>, a library function, on the two layouts the encoder
  writes: a date \<^verbatim>\<open>MM/DD/YYYY\<close>, alone or followed by \<^verbatim>\<open>hh:mm:ss AM\<close> and an optional
  offset \<^verbatim>\<open>+hhmm\<close>. Its result is always a \<^verbatim>\<open>datetime\<close>, at midnight when the text
  has no time.
\<close>

definition number :: "string \<Rightarrow> nat option" where
  "number s = (if s \<noteq> [] \<and> list_all is_digit s then Some (digits_value 0 s) else None)"

definition read_date :: "string \<Rightarrow> (nat \<times> nat \<times> nat) option" where
  "read_date s =
     (if length s < 10 then None
      else if s ! 2 = CHR ''/'' \<and> s ! 5 = CHR ''/'' then
        (case (number (take 2 s), number (take 2 (drop 3 s)), number (take 4 (drop 6 s))) of
           (Some m, Some d, Some y) \<Rightarrow>
             (if 1 \<le> m \<and> m \<le> 12 \<and> 1 \<le> d \<and> d \<le> 31 then Some (y, m, d) else None)
         | _ \<Rightarrow> None)
      else None)"

definition read_clock :: "string \<Rightarrow> (nat \<times> nat \<times> nat) option" where
  "read_clock t =
     (if length t < 12 then None
      else if t ! 0 = CHR '' '' \<and> t ! 3 = CHR '':'' \<and> t ! 6 = CHR '':'' \<and> t ! 9 = CHR '' ''
              \<and> (take 2 (drop 10 t) = ''AM'' \<or> take 2 (drop 10 t) = ''PM'') then
        (case (number (take 2 (drop 1 t)), number (take 2 (drop 4 t)), number (take 2 (drop 7 t))) of
           (Some h, Some mi, Some sec) \<Rightarrow>
             (if 1 \<le> h \<and> h \<le> 12 \<and> mi < 60 \<and> sec < 60
              then Some (h mod 12 + (if take 2 (drop 10 t) = ''PM'' then 12 else 0), mi, sec)
              else None)
         | _ \<Rightarrow> None)
      else None)"

definition read_offset :: "string \<Rightarrow> int option option" where
  "read_offset z =
     (if z = [] \<or> z = '' '' then Some None
      else if length z = 6 \<and> z ! 0 = CHR '' '' \<and> (z ! 1 = CHR ''+'' \<or> z ! 1 = CHR ''-'') then
        (case (number (take 2 (drop 2 z)), number (take 2 (drop 4 z))) of
           (Some h, Some m) \<Rightarrow>
             Some (Some ((if z ! 1 = CHR ''-'' then - 1 else 1) * int (h * 60 + m)))
         | _ \<Rightarrow> None)
      else None)"

fun parser_parse :: "pyval \<Rightarrow> error + pyval" where
  "parser_parse (PStr s) =
     (case read_date s of
        None \<Rightarrow> Inl ParserError
      | Some (y, m, d) \<Rightarrow>
          (if drop 10 s = [] then
             Inr (PDatetime \<lparr>dt_year = y, dt_month = m, dt_day = d, dt_hour = 0, dt_minute = 0,
                              dt_second = 0, dt_microsecond = 0, dt_utcoffset = None\<rparr>)
           else
             (case (read_clock (drop 10 s), read_offset (drop 22 s)) of
                (Some (h, mi, sec), Some off) \<Rightarrow>
                  Inr (PDatetime \<lparr>dt_year = y, dt_month = m, dt_day = d, dt_hour = h,
                                   dt_minute = mi, dt_second = sec, dt_microsecond = 0,
                                   dt_utcoffset = off\<rparr>)
              | _ \<Rightarrow> Inl ParserError)))"
| "parser_parse v = Inl TypeError"

text \<open>
  The constructor \<^verbatim>\<open>Decimal(v)\<close>, a library function, on plain decimal numerals (an
  optional minus sign, digits, an optional fraction) and on integers.
\<close>

definition is_decimal_numeral :: "string \<Rightarrow> bool" where
  "is_decimal_numeral s =
     (let body = (if s \<noteq> [] \<and> hd s = CHR ''-'' then tl s else s);
          whole = takeWhile is_digit body;
          rest = drop (length whole) body
      in whole \<noteq> [] \<and> (rest = [] \<or> (hd rest = CHR ''.'' \<and> tl rest \<noteq> [] \<and> list_all is_digit (tl rest))))"

fun Decimal :: "pyval \<Rightarrow> error + pyval" where
  "Decimal (PStr s) = (if is_decimal_numeral s then Inr (PDecimal s) else Inl InvalidOperation)"
| "Decimal (PInt i) = Inr (PDecimal (show_int i))"
| "Decimal (PDecimal s) = Inr (PDecimal s)"
| "Decimal v = Inl TypeError"

definition SERIALIZE_OBJ_MAP :: "(string \<times> (pyval \<Rightarrow> error + pyval)) list" where
  "SERIALIZE_OBJ_MAP =
     [(str_datetime_class, parser_parse), (str_date_class, parser_parse),
      (str_Decimal_class, Decimal)]"

text \<open>
  \<^verbatim>\<open>object_hook(obj)\<close>: an object without the key \<^verbatim>\<open>_spec_type\<close> is returned as it
  is; an unknown tag is a \<^verbatim>\<open>TypeError\<close>; a known one decodes \<^verbatim>\<open>obj["val"]\<close>.
\<close>

definition object_hook :: "(string \<times> pyval) list \<Rightarrow> error + pyval" where
  "object_hook obj =
     (case map_of obj ''_spec_type'' of
        None \<Rightarrow> Inr (PDict obj)
      | Some spec_type \<Rightarrow>
          (case (case spec_type of PStr t \<Rightarrow> map_of SERIALIZE_OBJ_MAP t | _ \<Rightarrow> None) of
             None \<Rightarrow> Inl TypeError
           | Some decode \<Rightarrow>
               (case map_of obj ''val'' of None \<Rightarrow> Inl KeyError | Some v \<Rightarrow> decode v)))"

text \<open>
  \<^verbatim>\<open>serialize_json(json_dict)\<close>: a dictionary is encoded and written; anything else is
  iterated, and the \<^verbatim>\<open>__dict__\<close> of each element encoded, the list of them written.
\<close>

definition encode_dunder_dict :: "pyval \<Rightarrow> error + pyval" where
  "encode_dunder_dict obj =
     (case dunder_dict obj of
        Inl e \<Rightarrow> Inl e
      | Inr attrs \<Rightarrow> Inr (CustomJsonEncoder (PDict attrs)))"

fun serialize_json :: "pyval \<Rightarrow> error + string" where
  "serialize_json (PDict kvs) = json_dumps (CustomJsonEncoder (PDict kvs))"
| "serialize_json json_dict =
     (case iterate json_dict of
        Inl e \<Rightarrow> Inl e
      | Inr objs \<Rightarrow>
          (case map_result encode_dunder_dict objs of
             Inl e \<Rightarrow> Inl e
           | Inr data_main \<Rightarrow> json_dumps (PList data_main)))"

definition deserialize_json :: "string \<Rightarrow> error + pyval" where
  "deserialize_json json_str = json_loads object_hook json_str"

subsection \<open>The cache key (key_gen.py)\<close>

text \<open>
  The annotation of a parameter: none, the request or the response carrier, or any other
  type, by name. A target function is given by its module, its name, its parameters
  (name, annotation, default value) and what a call of it returns or raises. The model
  covers functions whose parameters can all be passed by position or by name.
\<close>

datatype annotation = Empty | Request_type | Response_type | Named_type string

record parameter =
  p_name :: string
  p_annotation :: annotation
  p_default :: "pyval option"

record func =
  f_module :: string
  f_name :: string
  f_params :: "parameter list"
  f_body :: "pyval list \<Rightarrow> (string \<times> pyval) list \<Rightarrow> error + pyval"

definition ALWAYS_IGNORE_ARG_TYPES :: "annotation list" where
  "ALWAYS_IGNORE_ARG_TYPES = [Response_type, Request_type]"

text \<open>
  \<^verbatim>\<open>sig.bind(*args, **kwargs)\<close>, a library function. Positional arguments go to the first
  parameters, and a parameter that also has a keyword argument is a \<^verbatim>\<open>TypeError\<close>, as
  are too many positional arguments.
\<close>

fun bind_positional ::
  "parameter list \<Rightarrow> pyval list \<Rightarrow> (string \<times> pyval) list
   \<Rightarrow> error + ((string \<times> pyval) list \<times> parameter list)" where
  "bind_positional ps [] kwargs = Inr ([], ps)"
| "bind_positional [] (a # as) kwargs = Inl TypeError"
| "bind_positional (p # ps) (a # as) kwargs =
     (if map_of kwargs (p_name p) \<noteq> None then Inl TypeError
      else
        (case bind_positional ps as kwargs of
           Inl e \<Rightarrow> Inl e
         | Inr (bound, rest) \<Rightarrow> Inr ((p_name p, a) # bound, rest)))"

text \<open>
  The parameters left over take their keyword argument; one with neither a keyword
  argument nor a default is a \<^verbatim>\<open>TypeError\<close>.
\<close>

fun bind_keywords :: "parameter list \<Rightarrow> (string \<times> pyval) list \<Rightarrow> error + (string \<times> pyval) list" where
  "bind_keywords [] kwargs = Inr []"
| "bind_keywords (p # ps) kwargs =
     (case map_of kwargs (p_name p) of
        Some v \<Rightarrow>
          (case bind_keywords ps kwargs of
             Inl e \<Rightarrow> Inl e
           | Inr bound \<Rightarrow> Inr ((p_name p, v) # bound))
      | None \<Rightarrow>
          (case p_default p of
             None \<Rightarrow> Inl TypeError
           | Some d \<Rightarrow> bind_keywords ps kwargs))"

text \<open>A keyword argument that names none of those parameters is a \<^verbatim>\<open>TypeError\<close>.\<close>

definition sig_bind ::
  "parameter list \<Rightarrow> pyval list \<Rightarrow> (string \<times> pyval) list \<Rightarrow> error + (string \<times> pyval) list" where
  "sig_bind ps args kwargs =
     (case bind_positional ps args kwargs of
        Inl e \<Rightarrow> Inl e
      | Inr (bound, rest) \<Rightarrow>
          (case bind_keywords rest kwargs of
             Inl e \<Rightarrow> Inl e
           | Inr bound' \<Rightarrow>
               (if filter (\<lambda>kv. fst kv \<notin> set (map p_name rest)) kwargs \<noteq> [] then Inl TypeError
                else Inr (bound @ bound'))))"

text \<open>
  \<^verbatim>\<open>func_args.apply_defaults()\<close>: the arguments in the order of the parameters, a
  parameter without an argument taking its default.
\<close>

definition apply_defaults ::
  "parameter list \<Rightarrow> (string \<times> pyval) list \<Rightarrow> (string \<times> pyval) list" where
  "apply_defaults ps arguments =
     List.map_filter
       (\<lambda>p. case map_of arguments (p_name p) of
               Some v \<Rightarrow> Some (p_name p, v)
             | None \<Rightarrow> map_option (\<lambda>d. (p_name p, d)) (p_default p))
       ps"

definition get_func_args ::
  "parameter list \<Rightarrow> pyval list \<Rightarrow> (string \<times> pyval) list \<Rightarrow> error + (string \<times> pyval) list" where
  "get_func_args sig args kwargs =
     (case sig_bind sig args kwargs of
        Inl e \<Rightarrow> Inl e
      | Inr arguments \<Rightarrow> Inr (apply_defaults sig arguments))"

text \<open>
  The generator \<^verbatim>\<open>valid_args\<close> of \<^verbatim>\<open>get_args_str\<close>: \<^verbatim>\<open>name=value\<close> for every argument
  whose parameter's annotation is not ignored; \<^verbatim>\<open>sig_params[arg]\<close> is a \<^verbatim>\<open>KeyError\<close> for
  a name that is no parameter.
\<close>

fun valid_args ::
  "parameter list \<Rightarrow> (string \<times> pyval) list \<Rightarrow> annotation list \<Rightarrow> error + string list" where
  "valid_args sig_params [] ignore_arg_types = Inr []"
| "valid_args sig_params ((arg, val) # rest) ignore_arg_types =
     (case find (\<lambda>p. p_name p = arg) sig_params of
        None \<Rightarrow> Inl KeyError
      | Some p \<Rightarrow>
          (case valid_args sig_params rest ignore_arg_types of
             Inl e \<Rightarrow> Inl e
           | Inr items \<Rightarrow>
               Inr (if p_annotation p \<in> set ignore_arg_types then items
                    else (arg @ ''='' @ str_of val) # items)))"

definition get_args_str ::
  "parameter list \<Rightarrow> (string \<times> pyval) list \<Rightarrow> annotation list \<Rightarrow> error + string" where
  "get_args_str sig_params func_args ignore_arg_types =
     (case valid_args sig_params func_args ignore_arg_types of
        Inl e \<Rightarrow> Inl e
      | Inr items \<Rightarrow> Inr (join '','' items))"

text \<open>
  \<^verbatim>\<open>get_cache_key(prefix, ignore_arg_types, func, *args, **kwargs)\<close>. The ignored types
  are \<^verbatim>\<open>list(set(ignore_arg_types or []) | set(ALWAYS_IGNORE_ARG_TYPES))\<close>: the elements
  of the union, in whatever order the set yields them. That order is the first argument
  of the model, a rearrangement of a list without repetitions.
\<close>

definition ignored_types ::
  "(annotation list \<Rightarrow> annotation list) \<Rightarrow> annotation list option \<Rightarrow> annotation list" where
  "ignored_types set_order ignore_arg_types =
     set_order (remdups ((case ignore_arg_types of None \<Rightarrow> [] | Some ts \<Rightarrow> ts)
                         @ ALWAYS_IGNORE_ARG_TYPES))"

definition get_cache_key ::
  "(annotation list \<Rightarrow> annotation list) \<Rightarrow> string option \<Rightarrow> annotation list option \<Rightarrow> func
   \<Rightarrow> pyval list \<Rightarrow> (string \<times> pyval) list \<Rightarrow> error + string" where
  "get_cache_key set_order prefix ignore_arg_types func args kwargs =
     (let ignored = ignored_types set_order ignore_arg_types;
          prefix' = (case prefix of None \<Rightarrow> [] | Some t \<Rightarrow> if t = [] then [] else t @ '':'')
      in case get_func_args (f_params func) args kwargs of
           Inl e \<Rightarrow> Inl e
         | Inr func_args \<Rightarrow>
             (case get_args_str (f_params func) func_args ignored of
                Inl e \<Rightarrow> Inl e
              | Inr args_str \<Rightarrow>
                  Inr (prefix' @ f_module func @ ''.'' @ f_name func @ ''('' @ args_str @ '')'')))"


subsection \<open>Connecting to the store (redis.py)\<close>

text \<open>
  Modelled from the spec: \<^verbatim>\<open>enums.py\<close> is not among the sources; the spec gives the
  connection status as the enumeration NONE, CONNECTED, AUTH_ERROR, CONN_ERROR.
\<close>

datatype RedisStatus = NONE | CONNECTED | AUTH_ERROR | CONN_ERROR

text \<open>
  What the Redis library does is a parameter of the model: a connection method
  (\<^verbatim>\<open>redis.from_url\<close> or \<^verbatim>\<open>redis.Redis\<close>) raises, or returns a client whose \<^verbatim>\<open>ping()\<close>
  answers true or false, or raises.
\<close>

datatype ping_reply = Pong bool | Ping_raises error

datatype connection = Connect_raises error | Client ping_reply

datatype redis_client = Redis_client string "string option" int

type_synonym connection_method = "string \<Rightarrow> string option \<Rightarrow> int \<Rightarrow> connection"

record redis_library =
  from_url :: connection_method
  Redis :: connection_method

definition connect_generic ::
  "connection_method \<Rightarrow> string \<Rightarrow> string option \<Rightarrow> int \<Rightarrow> error + (RedisStatus \<times> redis_client option)" where
  "connect_generic connection_method host_url password port =
     (case connection_method host_url password port of
        Connect_raises e \<Rightarrow>
          (if e = AuthenticationError \<or> e = ConnectionError then Inr (CONN_ERROR, None)
           else Inl e)
      | Client ping \<Rightarrow>
          (case ping of
             Ping_raises e \<Rightarrow> Inl e
           | Pong answer \<Rightarrow>
               (if answer then Inr (CONNECTED, Some (Redis_client host_url password port))
                else Inr (CONN_ERROR, None))))"

definition redis_connect ::
  "redis_library \<Rightarrow> string \<Rightarrow> bool \<Rightarrow> string option \<Rightarrow> int
   \<Rightarrow> error + (RedisStatus \<times> redis_client option)" where
  "redis_connect lib host_url local password port =
     connect_generic (if local then from_url lib else Redis lib) host_url password port"

subsection \<open>The store client (client.py)\<close>

definition DEFAULT_RESPONSE_HEADER :: string where
  "DEFAULT_RESPONSE_HEADER = ''X-FastAPI-Cache''"

definition ALLOWED_HTTP_TYPES :: "string list" where
  "ALLOWED_HTTP_TYPES = [''GET'']"

text \<open>The instance of \<^verbatim>\<open>Cyrus\<close> (its logger left out), and the arguments of its constructor.\<close>

record cyrus =
  prefix :: "string option"
  response_header :: string
  ignore_arg_types :: "annotation list option"
  local :: bool
  host_url :: string
  password :: "string option"
  port :: int
  status :: RedisStatus
  redis :: "redis_client option"

record config =
  cfg_prefix :: "string option"
  cfg_response_header :: "string option"
  cfg_ignore_arg_types :: "annotation list option"
  cfg_local :: bool
  cfg_host_url :: string
  cfg_password :: "string option"
  cfg_port :: int

definition default_config :: config where
  "default_config =
     \<lparr>cfg_prefix = None, cfg_response_header = None, cfg_ignore_arg_types = None,
      cfg_local = False, cfg_host_url = ''localhost'', cfg_password = None, cfg_port = 0\<rparr>"

definition connected :: "cyrus \<Rightarrow> bool" where
  "connected self = (status self = CONNECTED)"

definition not_connected :: "cyrus \<Rightarrow> bool" where
  "not_connected self = (if connected self then False else True)"

text \<open>
  \<^verbatim>\<open>Cyrus.__init__\<close>, which ends with \<^verbatim>\<open>self._connect()\<close>: the status and the client
  are what \<^verbatim>\<open>redis_connect\<close> returns (the log messages are left out).
\<close>

definition Cyrus_init :: "redis_library \<Rightarrow> config \<Rightarrow> error + cyrus" where
  "Cyrus_init lib cfg =
     (case redis_connect lib (cfg_host_url cfg) (cfg_local cfg) (cfg_password cfg) (cfg_port cfg) of
        Inl e \<Rightarrow> Inl e
      | Inr (st, client) \<Rightarrow>
          Inr \<lparr>prefix = cfg_prefix cfg,
               response_header =
                 (case cfg_response_header cfg of
                    None \<Rightarrow> DEFAULT_RESPONSE_HEADER
                  | Some h \<Rightarrow> if h = [] then DEFAULT_RESPONSE_HEADER else h),
               ignore_arg_types = cfg_ignore_arg_types cfg,
               local = cfg_local cfg, host_url = cfg_host_url cfg,
               password = cfg_password cfg, port = cfg_port cfg,
               status = st, redis = client\<rparr>)"

text \<open>
  The state of the process and of the Redis server: the instance registered in
  \<^verbatim>\<open>MetaSingleton._instances\<close>, the entries of the server (value and remaining time
  to live under each key), and a log of what happened: a connection attempt, a call of the
  handler, a lookup (\<^verbatim>\<open>TTL\<close> and \<^verbatim>\<open>GET\<close> in one pipeline), a \<^verbatim>\<open>SET\<close>. Time does
  not pass in the model: an entry keeps the time to live it was stored with.
\<close>

datatype event = Connect | Invoked | Lookup string | Set string string int

record world =
  instances :: "cyrus option"
  store :: "(string \<times> string \<times> int) list"
  events :: "event list"

definition log_event :: "event \<Rightarrow> world \<Rightarrow> world" where
  "log_event e w = w\<lparr>events := events w @ [e]\<rparr>"

text \<open>
  \<^verbatim>\<open>MetaSingleton.__call__\<close> for the class \<^verbatim>\<open>Cyrus\<close>: the registered instance if there
  is one; otherwise the constructor runs, and its instance is registered unless it raised.
\<close>

definition Cyrus_call :: "redis_library \<Rightarrow> config \<Rightarrow> world \<Rightarrow> (error + cyrus) \<times> world" where
  "Cyrus_call lib cfg w =
     (case instances w of
        Some self \<Rightarrow> (Inr self, w)
      | None \<Rightarrow>
          (case Cyrus_init lib cfg of
             Inl e \<Rightarrow> (Inl e, log_event Connect w)
           | Inr self \<Rightarrow> (Inr self, (log_event Connect w)\<lparr>instances := Some self\<rparr>)))"

text \<open>
  \<^verbatim>\<open>check_cache\<close>: \<^verbatim>\<open>TTL\<close> answers \<open>-2\<close> for a key that does not exist. Without a client
  (\<^verbatim>\<open>self.redis\<close> is \<^verbatim>\<open>None\<close>) the call of \<^verbatim>\<open>pipeline\<close> is an \<^verbatim>\<open>AttributeError\<close>.
\<close>

definition check_cache :: "cyrus \<Rightarrow> string \<Rightarrow> world \<Rightarrow> (error + (int \<times> string option)) \<times> world" where
  "check_cache self key w =
     (case redis self of
        None \<Rightarrow> (Inl AttributeError, w)
      | Some client \<Rightarrow>
          (case map_of (store w) key of
             None \<Rightarrow> (Inr (- 2, None), log_event (Lookup key) w)
           | Some (v, ttl) \<Rightarrow> (Inr (ttl, Some v), log_event (Lookup key) w)))"

text \<open>\<^verbatim>\<open>d.get(name, default)\<close>.\<close>

definition dict_get :: "(string \<times> 'v) list \<Rightarrow> string \<Rightarrow> 'v \<Rightarrow> 'v" where
  "dict_get d name dflt = (case map_of d name of None \<Rightarrow> dflt | Some v \<Rightarrow> v)"

text \<open>
  \<^verbatim>\<open>requested_resource_not_modified\<close>. The class has no method \<^verbatim>\<open>get_etag\<close> (its
  definition is commented out), so the last line raises \<^verbatim>\<open>AttributeError\<close>.
\<close>

definition requested_resource_not_modified :: "pyval \<Rightarrow> string \<Rightarrow> error + bool" where
  "requested_resource_not_modified req cached_data =
     (if truthy req then
        (case req of
           PRequest r \<Rightarrow>
             (case map_of (req_headers r) ''If-None-Match'' of
                None \<Rightarrow> Inr False
              | Some h \<Rightarrow>
                  (let check_etags = map strip (filter (\<lambda>etag. etag \<noteq> []) (split_on (CHR '','') h))
                   in if length check_etags = 1 \<and> check_etags ! 0 = ''*'' then Inr True
                      else Inl AttributeError))
         | _ \<Rightarrow> Inl AttributeError)
      else Inr False)"

text \<open>
  \<^verbatim>\<open>add_to_cache\<close> returns \<^verbatim>\<open>False\<close> from its handler of \<^verbatim>\<open>TypeError\<close>, and the pair
  \<^verbatim>\<open>(cached, serialized_dict)\<close> otherwise. \<^verbatim>\<open>SET\<close> with an expiration that is not
  positive is refused by the server (\<^verbatim>\<open>ResponseError\<close>); otherwise it stores the entry
  and answers true.
\<close>

datatype add_result = Returned_False | Returned_pair bool "(string \<times> string list) list"

definition serialize_dunder_dict :: "pyval \<Rightarrow> error + string" where
  "serialize_dunder_dict obj =
     (case dunder_dict obj of
        Inl e \<Rightarrow> Inl e
      | Inr attrs \<Rightarrow> serialize_json (PDict attrs))"

definition serialized_messages :: "pyval \<Rightarrow> error + string list" where
  "serialized_messages val =
     (if has_len val then
        (case iterate val of
           Inl e \<Rightarrow> Inl e
         | Inr objs \<Rightarrow> map_result serialize_dunder_dict objs)
      else map_result serialize_dunder_dict [val])"

definition json_dumps_serialized_dict :: "(string \<times> string list) list \<Rightarrow> error + string" where
  "json_dumps_serialized_dict d = json_dumps (PDict (map (\<lambda>kv. (fst kv, PList (map PStr (snd kv)))) d))"

definition redis_set :: "string \<Rightarrow> string \<Rightarrow> int \<Rightarrow> world \<Rightarrow> (error + bool) \<times> world" where
  "redis_set name val ex w =
     (if ex \<le> 0 then (Inl ResponseError, log_event (Set name val ex) w)
      else (Inr True, (log_event (Set name val ex) w)\<lparr>store := dict_set (store w) name (val, ex)\<rparr>))"

definition add_to_cache ::
  "cyrus \<Rightarrow> string \<Rightarrow> pyval \<Rightarrow> int \<Rightarrow> world \<Rightarrow> (error + add_result) \<times> world" where
  "add_to_cache self key val expire w =
     (case serialized_messages val of
        Inl e \<Rightarrow> (if e = TypeError then (Inr Returned_False, w) else (Inl e, w))
      | Inr msgs \<Rightarrow>
          (let serialized_dict = (if msgs \<noteq> [] then [(key, msgs)] else [])
           in case redis self of
                None \<Rightarrow> (Inl AttributeError, w)
              | Some client \<Rightarrow>
                  (case json_dumps_serialized_dict serialized_dict of
                     Inl e \<Rightarrow> (Inl e, w)
                   | Inr text \<Rightarrow>
                       (case redis_set key text expire w of
                          (Inl e, w') \<Rightarrow> (Inl e, w')
                        | (Inr cached, w') \<Rightarrow> (Inr (Returned_pair cached serialized_dict), w')))))"

text \<open>
  \<^verbatim>\<open>set_response_headers\<close>; \<open>now\<close> is \<^verbatim>\<open>datetime.utcnow()\<close> in seconds. A value that
  is not a response object has no \<^verbatim>\<open>headers\<close>.
\<close>

definition set_response_headers :: "cyrus \<Rightarrow> int \<Rightarrow> pyval \<Rightarrow> bool \<Rightarrow> int \<Rightarrow> error + pyval" where
  "set_response_headers self now resp cache_hit ttl =
     (case resp of
        PResponse r \<Rightarrow>
          Inr (PResponse (r\<lparr>headers :=
                 dict_set
                   (dict_set
                      (dict_set (headers r) (response_header self)
                         (Text (if cache_hit then ''Hit'' else ''Miss'')))
                      ''Expires'' (HttpTime (now + ttl)))
                   ''Cache-Control'' (Text (''max-age='' @ show_int ttl))\<rparr>))
      | _ \<Rightarrow> Inl AttributeError)"

text \<open>
  \<^verbatim>\<open>request_is_not_cacheable(request)\<close> is \<^verbatim>\<open>request and (...)\<close>: for a request that is
  \<^verbatim>\<open>None\<close> it is \<^verbatim>\<open>None\<close>, which counts as false.
\<close>

definition request_is_not_cacheable :: "pyval \<Rightarrow> error + bool" where
  "request_is_not_cacheable req =
     (if truthy req then
        (case req of
           PRequest r \<Rightarrow>
             Inr (if req_method r \<in> set ALLOWED_HTTP_TYPES
                  then list_ex (\<lambda>directive. str_contains directive (dict_get (req_headers r) ''Cache-Control'' []))
                         [''no-store'', ''no-cache'']
                  else True)
         | _ \<Rightarrow> Inl AttributeError)
      else Inr False)"

subsection \<open>The decorator (cache.py)\<close>

text \<open>
  What a call depends on besides its arguments and the state: the Redis library, the
  order in which a set of types is enumerated, and the clock.
\<close>

record runtime =
  rt_lib :: redis_library
  rt_set_order :: "annotation list \<Rightarrow> annotation list"
  rt_now :: int

text \<open>\<^verbatim>\<open>Response()\<close>.\<close>

definition Response_new :: response where
  "Response_new = \<lparr>status_code = 200, headers = [], content = [], media_type = None\<rparr>"

text \<open>
  \<^verbatim>\<open>create_response(response, content, create_directly)\<close>; \<^verbatim>\<open>len(content)\<close> is a
  \<^verbatim>\<open>TypeError\<close> when the content is \<^verbatim>\<open>None\<close>.
\<close>

definition create_response :: "pyval \<Rightarrow> string option \<Rightarrow> bool \<Rightarrow> error + pyval" where
  "create_response resp cont create_directly =
     (if create_directly then
        (case cont of
           None \<Rightarrow> Inl TypeError
         | Some c \<Rightarrow>
             (case resp of
                PResponse r \<Rightarrow>
                  Inr (PResponse
                         \<lparr>status_code = status_code r,
                          headers = [(''Content-Length'', Text (show_nat (length c)))],
                          content = c, media_type = Some ''application/json''\<rparr>)
              | _ \<Rightarrow> Inl AttributeError))
      else Inr (case cont of None \<Rightarrow> PNone | Some c \<Rightarrow> PStr c))"

text \<open>\<^verbatim>\<open>get_api_response_async\<close>: the handler is called, awaited or not.\<close>

definition get_api_response_async ::
  "func \<Rightarrow> pyval list \<Rightarrow> (string \<times> pyval) list \<Rightarrow> world \<Rightarrow> (error + pyval) \<times> world" where
  "get_api_response_async func args kwargs w = (f_body func args kwargs, log_event Invoked w)"

definition Cyrus_get_cache_key ::
  "cyrus \<Rightarrow> runtime \<Rightarrow> func \<Rightarrow> pyval list \<Rightarrow> (string \<times> pyval) list \<Rightarrow> error + string" where
  "Cyrus_get_cache_key self rt func args kwargs =
     get_cache_key (rt_set_order rt) (prefix self) (ignore_arg_types self) func args kwargs"

text \<open>\<^verbatim>\<open>response.status_code = int(HTTPStatus.NOT_MODIFIED)\<close>.\<close>

definition set_status_code :: "pyval \<Rightarrow> int \<Rightarrow> error + pyval" where
  "set_status_code resp code =
     (case resp of
        PResponse r \<Rightarrow> Inr (PResponse (r\<lparr>status_code := code\<rparr>))
      | _ \<Rightarrow> Inl AttributeError)"

text \<open>
  The branch \<^verbatim>\<open>if in_cache:\<close> of \<^verbatim>\<open>inner_wrapper\<close>. The result is what the call returns
  or raises, and the response object as the branch leaves it.
\<close>

definition serve_cached ::
  "cyrus \<Rightarrow> runtime \<Rightarrow> pyval \<Rightarrow> pyval \<Rightarrow> bool \<Rightarrow> string \<Rightarrow> int \<Rightarrow> string
   \<Rightarrow> (error + pyval) \<times> pyval" where
  "serve_cached redis_cache rt req resp create_response_directly key ttl in_cache =
     (case deserialize_json in_cache of
        Inl e \<Rightarrow> (Inl e, resp)
      | Inr data \<Rightarrow>
          (case set_response_headers redis_cache (rt_now rt) resp True ttl of
             Inl e \<Rightarrow> (Inl e, resp)
           | Inr resp1 \<Rightarrow>
               (case requested_resource_not_modified req in_cache of
                  Inl e \<Rightarrow> (Inl e, resp1)
                | Inr not_modified \<Rightarrow>
                    (if not_modified then
                       (case set_status_code resp1 304 of
                          Inl e \<Rightarrow> (Inl e, resp1)
                        | Inr resp2 \<Rightarrow> (create_response resp2 None create_response_directly, resp2))
                     else
                       (case json_loads no_hook in_cache of
                          Inl e \<Rightarrow> (Inl e, resp1)
                        | Inr loaded \<Rightarrow>
                            (case loaded of
                               PDict kvs \<Rightarrow>
                                 (create_response resp1
                                    (Some (str_of (dict_get kvs key (PDict kvs))))
                                    create_response_directly, resp1)
                             | _ \<Rightarrow> (Inl AttributeError, resp1)))))))"

text \<open>
  The rest of \<^verbatim>\<open>inner_wrapper\<close>, after a lookup that found nothing. Unpacking the
  \<^verbatim>\<open>False\<close> that \<^verbatim>\<open>add_to_cache\<close> returns into \<^verbatim>\<open>cached, serialized_dict\<close> is a
  \<^verbatim>\<open>TypeError\<close>.
\<close>

definition serve_fresh ::
  "cyrus \<Rightarrow> runtime \<Rightarrow> expire \<Rightarrow> func \<Rightarrow> pyval list \<Rightarrow> (string \<times> pyval) list \<Rightarrow> pyval \<Rightarrow> bool
   \<Rightarrow> string \<Rightarrow> world \<Rightarrow> (error + pyval) \<times> pyval \<times> world" where
  "serve_fresh redis_cache rt expire func args kwargs resp create_response_directly key w =
     (case get_api_response_async func args kwargs w of
        (Inl e, w1) \<Rightarrow> (Inl e, resp, w1)
      | (Inr response_data, w1) \<Rightarrow>
          (let ttl = calculate_ttl expire
           in case add_to_cache redis_cache key response_data ttl w1 of
                (Inl e, w2) \<Rightarrow> (Inl e, resp, w2)
              | (Inr Returned_False, w2) \<Rightarrow> (Inl TypeError, resp, w2)
              | (Inr (Returned_pair cached serialized_dict), w2) \<Rightarrow>
                  (if cached then
                     (case set_response_headers redis_cache (rt_now rt) resp False ttl of
                        Inl e \<Rightarrow> (Inl e, resp, w2)
                      | Inr resp1 \<Rightarrow>
                          (if has_len response_data then
                             (case serialize_json response_data of
                                Inl e \<Rightarrow> (Inl e, resp1, w2)
                              | Inr text \<Rightarrow>
                                  (create_response resp1 (Some text) create_response_directly,
                                   resp1, w2))
                           else
                             (case map_of serialized_dict key of
                                None \<Rightarrow> (Inl KeyError, resp1, w2)
                              | Some msgs \<Rightarrow>
                                  (case msgs of
                                     [] \<Rightarrow> (Inl IndexError, resp1, w2)
                                   | m # ms \<Rightarrow>
                                       (create_response resp1 (Some m) create_response_directly,
                                        resp1, w2)))))
                   else (Inr response_data, resp, w2))))"

text \<open>
  \<^verbatim>\<open>inner_wrapper(*args, **kwargs)\<close> of a handler decorated with \<^verbatim>\<open>cache(expire=...)\<close>:
  what the call returns or raises, the response object (the caller's, or the one made
  here), and the state afterwards.
\<close>

definition inner_wrapper ::
  "runtime \<Rightarrow> expire \<Rightarrow> func \<Rightarrow> pyval list \<Rightarrow> (string \<times> pyval) list \<Rightarrow> world
   \<Rightarrow> (error + pyval) \<times> pyval \<times> world" where
  "inner_wrapper rt expire func args kwargs w =
     (let req = dict_get kwargs ''request'' PNone;
          resp0 = dict_get kwargs ''response'' PNone;
          create_response_directly = (if truthy resp0 then False else True);
          resp = (if create_response_directly then PResponse Response_new else resp0)
      in case Cyrus_call (rt_lib rt) default_config w of
           (Inl e, w1) \<Rightarrow> (Inl e, resp, w1)
         | (Inr redis_cache, w1) \<Rightarrow>
             (case (if not_connected redis_cache then Inr True
                    else request_is_not_cacheable req) of
                Inl e \<Rightarrow> (Inl e, resp, w1)
              | Inr skip \<Rightarrow>
                  (if skip then
                     (case get_api_response_async func args kwargs w1 of
                        (result, w2) \<Rightarrow> (result, resp, w2))
                   else
                     (case Cyrus_get_cache_key redis_cache rt func args kwargs of
                        Inl e \<Rightarrow> (Inl e, resp, w1)
                      | Inr key \<Rightarrow>
                          (case check_cache redis_cache key w1 of
                             (Inl e, w2) \<Rightarrow> (Inl e, resp, w2)
                           | (Inr (ttl, in_cache), w2) \<Rightarrow>
                               (case in_cache of
                                  None \<Rightarrow>
                                    serve_fresh redis_cache rt expire func args kwargs resp
                                      create_response_directly key w2
                                | Some text \<Rightarrow>
                                    (if text = [] then
                                       serve_fresh redis_cache rt expire func args kwargs resp
                                         create_response_directly key w2
                                     else
                                       (case serve_cached redis_cache rt req resp
                                               create_response_directly key ttl text of
                                          (result, resp') \<Rightarrow> (result, resp', w2)))))))))"


subsection \<open>Inputs of the examples\<close>

text \<open>
  A Redis library whose server accepts every connection and answers \<^verbatim>\<open>ping\<close>, one whose
  connection methods raise \<^verbatim>\<open>AuthenticationError\<close>, one whose \<^verbatim>\<open>ping\<close> raises
  \<^verbatim>\<open>ConnectionError\<close>; a process in which nothing has happened yet.
\<close>

definition server_up :: redis_library where
  "server_up =
     \<lparr>from_url = (\<lambda>url pw pt. Client (Pong True)), Redis = (\<lambda>host pw pt. Client (Pong True))\<rparr>"

definition wrong_password :: redis_library where
  "wrong_password =
     \<lparr>from_url = (\<lambda>url pw pt. Connect_raises AuthenticationError),
      Redis = (\<lambda>host pw pt. Connect_raises AuthenticationError)\<rparr>"

definition server_down :: redis_library where
  "server_down =
     \<lparr>from_url = (\<lambda>url pw pt. Client (Ping_raises ConnectionError)),
      Redis = (\<lambda>host pw pt. Client (Ping_raises ConnectionError))\<rparr>"

definition runtime_with :: "redis_library \<Rightarrow> runtime" where
  "runtime_with lib = \<lparr>rt_lib = lib, rt_set_order = (\<lambda>ts. ts), rt_now = 0\<rparr>"

definition fresh_world :: world where
  "fresh_world = \<lparr>instances = None, store = [], events = []\<rparr>"

text \<open>
  The client that the constructor makes from its default arguments when the server is
  up, and the process after that construction.
\<close>

definition default_client :: cyrus where
  "default_client =
     \<lparr>prefix = None, response_header = ''X-FastAPI-Cache'', ignore_arg_types = None,
      local = False, host_url = ''localhost'', password = None, port = 0,
      status = CONNECTED, redis = Some (Redis_client ''localhost'' None 0)\<rparr>"

definition connected_world :: world where
  "connected_world = \<lparr>instances = Some default_client, store = [], events = [Connect]\<rparr>"

text \<open>
  Handlers \<^verbatim>\<open>def get_items(item_id: int, request: Request = None, response: Response = None)\<close>
  in the module \<^verbatim>\<open>app.main\<close>, returning a list of one object with the attribute
  \<^verbatim>\<open>id = 1\<close>, and \<^verbatim>\<open>get_price\<close> with the same parameters, returning an object with the
  attribute \<^verbatim>\<open>price = Decimal("19.99")\<close>. A GET request with given headers.
\<close>

definition handler_params :: "parameter list" where
  "handler_params =
     [\<lparr>p_name = ''item_id'', p_annotation = Named_type ''int'', p_default = None\<rparr>,
      \<lparr>p_name = ''request'', p_annotation = Request_type, p_default = Some PNone\<rparr>,
      \<lparr>p_name = ''response'', p_annotation = Response_type, p_default = Some PNone\<rparr>]"

definition get_items :: func where
  "get_items =
     \<lparr>f_module = ''app.main'', f_name = ''get_items'', f_params = handler_params,
      f_body = (\<lambda>args kwargs. Inr (PList [PObj OtherClass ''<app.main.Item object>'' [(''id'', PInt 1)]]))\<rparr>"

definition get_price :: func where
  "get_price =
     \<lparr>f_module = ''app.main'', f_name = ''get_price'', f_params = handler_params,
      f_body = (\<lambda>args kwargs.
                  Inr (PObj OtherClass ''<app.main.Price object>'' [(''price'', PDecimal ''19.99'')]))\<rparr>"

definition GET_request :: "(string \<times> string) list \<Rightarrow> pyval" where
  "GET_request hs = PRequest \<lparr>req_method = ''GET'', req_headers = hs\<rparr>"

section \<open>Properties\<close>


text \<open>
  C4. Decoding an encoded value gives the value back, for plain JSON values, timestamps,
  dates and decimals. The code does not do this. A dictionary with a timezone-aware
  timestamp (2024-01-15 10:30:00+00:00) is written with the timestamp as an untagged
  text, and read back with a string in its place; a dictionary with the decimal
  \<^verbatim>\<open>19.99\<close> is not written at all (\<^verbatim>\<open>TypeError\<close>); a timestamp or a decimal on its
  own is not iterable for \<^verbatim>\<open>serialize_json\<close>.
\<close>

theorem serialize_json_loses_timestamp:
  "serialize_json
     (PDict [(''created'',
        PDatetime \<lparr>dt_year = 2024, dt_month = 1, dt_day = 15, dt_hour = 10, dt_minute = 30,
                   dt_second = 0, dt_microsecond = 0, dt_utcoffset = Some 0\<rparr>)])
     = Inr ''{\"created\": \"01/15/2024 10:30:00 AM +0000\"}''
   \<and> deserialize_json ''{\"created\": \"01/15/2024 10:30:00 AM +0000\"}''
     = Inr (PDict [(''created'', PStr ''01/15/2024 10:30:00 AM +0000'')])
   \<and> serialize_json (PDict [(''price'', PDecimal ''19.99'')]) = Inl TypeError
   \<and> serialize_json (PDecimal ''19.99'') = Inl TypeError
   \<and> serialize_json
        (PDatetime \<lparr>dt_year = 2024, dt_month = 1, dt_day = 15, dt_hour = 10, dt_minute = 30,
                    dt_second = 0, dt_microsecond = 0, dt_utcoffset = Some 0\<rparr>)
      = Inl TypeError"
  by code_simp

subsection \<open>The cache key\<close>

lemma valid_args_set_eq:
  "set ig1 = set ig2 \<Longrightarrow> valid_args sp fa ig1 = valid_args sp fa ig2"
  by (induction fa) (auto split: option.splits sum.splits)




















text \<open>
  C9. The key builder called twice with the same function, arguments and ignored types
  gives the same key: the key is a function of its inputs, and the one thing the Python
  run time chooses, the order in which the set of ignored types is enumerated, does not
  change it.
\<close>

theorem get_cache_key_deterministic:
  "(\<forall>xs. set (ord1 xs) = set xs) \<Longrightarrow> (\<forall>xs. set (ord2 xs) = set xs) \<Longrightarrow>
   get_cache_key ord1 pfx ign f args kwargs = get_cache_key ord2 pfx ign f args kwargs"
proof -
  assume a: "\<forall>xs. set (ord1 xs) = set xs" "\<forall>xs. set (ord2 xs) = set xs"
  have "set (ignored_types ord1 ign) = set (ignored_types ord2 ign)"
    by (simp add: ignored_types_def a)
  then have "valid_args sp fa (ignored_types ord1 ign) = valid_args sp fa (ignored_types ord2 ign)" for sp fa
    by (rule valid_args_set_eq)
  then have "get_args_str sp fa (ignored_types ord1 ign) = get_args_str sp fa (ignored_types ord2 ign)" for sp fa
    by (simp add: get_args_str_def)
  then show ?thesis
    by (simp add: get_cache_key_def Let_def split: sum.splits)
qed

theorem get_cache_key_deterministic_witness:
  "(\<forall>xs :: annotation list. set xs = set xs) \<and> (\<forall>xs :: annotation list. set (rev xs) = set xs)
   \<and> get_cache_key (\<lambda>ts. ts) (Some ''v1'') (Some [Named_type ''Session''])
        \<lparr>f_module = ''app.main'', f_name = ''get_item'',
         f_params = [\<lparr>p_name = ''a'', p_annotation = Empty, p_default = None\<rparr>,
                     \<lparr>p_name = ''db'', p_annotation = Named_type ''Session'', p_default = None\<rparr>],
         f_body = (\<lambda>args kwargs. Inr PNone)\<rparr>
        [PInt 1] [(''db'', PNone)]
     = get_cache_key rev (Some ''v1'') (Some [Named_type ''Session''])
        \<lparr>f_module = ''app.main'', f_name = ''get_item'',
         f_params = [\<lparr>p_name = ''a'', p_annotation = Empty, p_default = None\<rparr>,
                     \<lparr>p_name = ''db'', p_annotation = Named_type ''Session'', p_default = None\<rparr>],
         f_body = (\<lambda>args kwargs. Inr PNone)\<rparr>
        [PInt 1] [(''db'', PNone)]"
  using get_cache_key_deterministic [of "\<lambda>ts. ts" rev "Some ''v1''" "Some [Named_type ''Session'']"
     "\<lparr>f_module = ''app.main'', f_name = ''get_item'',
         f_params = [\<lparr>p_name = ''a'', p_annotation = Empty, p_default = None\<rparr>,
                     \<lparr>p_name = ''db'', p_annotation = Named_type ''Session'', p_default = None\<rparr>],
         f_body = (\<lambda>args kwargs. Inr PNone)\<rparr>" "[PInt 1]" "[(''db'', PNone)]"]
  by simp

subsection \<open>The decorator\<close>

lemma Cyrus_init_client:
  "Cyrus_init lib cfg = Inr self \<Longrightarrow> status self = CONNECTED \<Longrightarrow> \<exists>client. redis self = Some client"
  by (auto simp: Cyrus_init_def redis_connect_def connect_generic_def
           split: sum.splits connection.splits ping_reply.splits if_splits)

lemma check_cache_lookup:
  "redis self = Some client \<Longrightarrow>
   \<exists>t v. check_cache self key w = (Inr (t, v), log_event (Lookup key) w)"
  by (cases "map_of (store w) key") (auto simp: check_cache_def)

lemma add_to_cache_events:
  "\<exists>rest. events (snd (add_to_cache self key val expire w)) = events w @ rest"
  by (auto simp: add_to_cache_def redis_set_def log_event_def Let_def
           split: sum.splits option.splits if_splits)

lemma serve_fresh_events:
  "\<exists>rest. events (snd (snd (serve_fresh self rt expire func args kwargs resp crd key w))) = events w @ rest"
proof -
  obtain r w1 where g: "get_api_response_async func args kwargs w = (r, w1)"
    by (cases "get_api_response_async func args kwargs w")
  then have w1: "events w1 = events w @ [Invoked]"
    by (auto simp: get_api_response_async_def log_event_def)
  show ?thesis
  proof (cases r)
    case (Inl e)
    with g w1 show ?thesis by (simp add: serve_fresh_def)
  next
    case (Inr response_data)
    obtain a w2 where a: "add_to_cache self key response_data (calculate_ttl expire) w1 = (a, w2)"
      by (cases "add_to_cache self key response_data (calculate_ttl expire) w1")
    from add_to_cache_events [of self key response_data "calculate_ttl expire" w1] a
    obtain rest where "events w2 = events w1 @ rest" by auto
    then have "events w2 = events w @ Invoked # rest" by (simp add: w1)
    with g Inr a show ?thesis
      by (auto simp: serve_fresh_def Let_def split: sum.splits add_result.splits option.splits list.splits)
  qed
qed

text \<open>
  C2, as amended. Given a store client made by the constructor and a request that is
  absent (\<^verbatim>\<open>None\<close>) or a request object, the call is passed through (the handler
  is invoked, the log gains that invocation and nothing else, the store is unchanged)
  exactly when the client is not connected, or there is a request object whose method is
  not GET or whose \<^verbatim>\<open>Cache-Control\<close> header contains \<^verbatim>\<open>no-store\<close> or \<^verbatim>\<open>no-cache\<close>.
  In every other case, a call without a request object included, the key is computed:
  if binding the arguments fails the error is raised and nothing else happens, otherwise
  the next thing that happens is the lookup of that key.
\<close>

theorem inner_wrapper_cacheability:
  assumes call: "Cyrus_call (rt_lib rt) default_config w = (Inr self, w1)"
    and made: "Cyrus_init lib0 cfg0 = Inr self"
    and req: "dict_get kwargs ''request'' PNone = PNone
              \<or> (\<exists>r. dict_get kwargs ''request'' PNone = PRequest r)"
  shows "if status self \<noteq> CONNECTED
            \<or> (\<exists>r. dict_get kwargs ''request'' PNone = PRequest r
                  \<and> (req_method r \<noteq> ''GET''
                     \<or> str_contains ''no-store'' (dict_get (req_headers r) ''Cache-Control'' [])
                     \<or> str_contains ''no-cache'' (dict_get (req_headers r) ''Cache-Control'' [])))
         then fst (inner_wrapper rt expire func args kwargs w) = f_body func args kwargs
              \<and> snd (snd (inner_wrapper rt expire func args kwargs w)) = log_event Invoked w1
         else (case Cyrus_get_cache_key self rt func args kwargs of
                 Inl e \<Rightarrow> fst (inner_wrapper rt expire func args kwargs w) = Inl e
                          \<and> snd (snd (inner_wrapper rt expire func args kwargs w)) = w1
               | Inr key \<Rightarrow>
                   (\<exists>rest. events (snd (snd (inner_wrapper rt expire func args kwargs w)))
                             = events w1 @ Lookup key # rest))"
proof (cases "status self = CONNECTED")
  case False
  then show ?thesis
    by (simp add: inner_wrapper_def call not_connected_def connected_def
          get_api_response_async_def Let_def)
next
  case True
  then obtain client where client: "redis self = Some client"
    using Cyrus_init_client [OF made] by blast
  have nc: "not_connected self = False"
    using True by (simp add: not_connected_def connected_def)
  from req show ?thesis
  proof
    assume none: "dict_get kwargs ''request'' PNone = PNone"
    have skip: "request_is_not_cacheable PNone = Inr False"
      by (simp add: request_is_not_cacheable_def)
    show ?thesis
    proof (cases "Cyrus_get_cache_key self rt func args kwargs")
      case (Inl e)
      then show ?thesis
        by (simp add: inner_wrapper_def call nc none skip True Let_def)
    next
      case (Inr key)
      obtain t v where cc: "check_cache self key w1 = (Inr (t, v), log_event (Lookup key) w1)"
        using check_cache_lookup [OF client] by blast
      have "\<exists>rest. events (snd (snd (inner_wrapper rt expire func args kwargs w)))
                    = events (log_event (Lookup key) w1) @ rest"
        using serve_fresh_events
        by (auto simp: inner_wrapper_def call nc none skip Inr cc Let_def
                 split: option.splits prod.splits)
      then show ?thesis
        by (simp add: True none Inr log_event_def)
    qed
  next
    assume "\<exists>r. dict_get kwargs ''request'' PNone = PRequest r"
    then obtain r where r: "dict_get kwargs ''request'' PNone = PRequest r" by blast
    let ?cc = "dict_get (req_headers r) ''Cache-Control'' []"
    let ?bad = "req_method r \<noteq> ''GET'' \<or> str_contains ''no-store'' ?cc \<or> str_contains ''no-cache'' ?cc"
    have skip: "request_is_not_cacheable (PRequest r) = Inr ?bad"
      by (simp add: request_is_not_cacheable_def ALLOWED_HTTP_TYPES_def)
    show ?thesis
    proof (cases ?bad)
      case bad: True
      then show ?thesis
        by (simp add: inner_wrapper_def call nc r skip True get_api_response_async_def Let_def)
    next
      case good: False
      show ?thesis
      proof (cases "Cyrus_get_cache_key self rt func args kwargs")
        case (Inl e)
        with good show ?thesis
          by (simp add: inner_wrapper_def call nc r skip True Let_def)
      next
        case (Inr key)
        obtain t v where cc: "check_cache self key w1 = (Inr (t, v), log_event (Lookup key) w1)"
          using check_cache_lookup [OF client] by blast
        have "\<exists>rest. events (snd (snd (inner_wrapper rt expire func args kwargs w)))
                      = events (log_event (Lookup key) w1) @ rest"
          using serve_fresh_events good
          by (auto simp: inner_wrapper_def call nc r skip Inr cc Let_def
                   split: option.splits prod.splits)
        with good show ?thesis
          by (simp add: True r Inr log_event_def)
      qed
    qed
  qed
qed

theorem inner_wrapper_cacheability_witness:
  "Cyrus_call (rt_lib (runtime_with server_up)) default_config fresh_world
     = (Inr default_client, connected_world)
   \<and> Cyrus_init server_up default_config = Inr default_client
   \<and> dict_get [(''request'', GET_request [])] ''request'' PNone
       = PRequest \<lparr>req_method = ''GET'', req_headers = []\<rparr>
   \<and> (\<exists>rest. events (snd (snd (inner_wrapper (runtime_with server_up) (Seconds 60) get_items
                   [PInt 1] [(''request'', GET_request [])] fresh_world)))
               = events connected_world @ Lookup ''app.main.get_items(item_id=1)'' # rest)
   \<and> dict_get [(''request'', PRequest \<lparr>req_method = ''POST'', req_headers = []\<rparr>)] ''request'' PNone
       = PRequest \<lparr>req_method = ''POST'', req_headers = []\<rparr>
   \<and> snd (snd (inner_wrapper (runtime_with server_up) (Seconds 60) get_items [PInt 1]
                 [(''request'', PRequest \<lparr>req_method = ''POST'', req_headers = []\<rparr>)] fresh_world))
       = log_event Invoked connected_world"
proof -
  have call: "Cyrus_call (rt_lib (runtime_with server_up)) default_config fresh_world
               = (Inr default_client, connected_world)"
    by (simp add: Cyrus_call_def Cyrus_init_def redis_connect_def connect_generic_def
          runtime_with_def server_up_def default_config_def fresh_world_def default_client_def
          connected_world_def log_event_def DEFAULT_RESPONSE_HEADER_def)
  have made: "Cyrus_init server_up default_config = Inr default_client"
    by (simp add: Cyrus_init_def redis_connect_def connect_generic_def server_up_def
          default_config_def default_client_def DEFAULT_RESPONSE_HEADER_def)
  have get: "dict_get [(''request'', GET_request [])] ''request'' PNone
             = PRequest \<lparr>req_method = ''GET'', req_headers = []\<rparr>"
    by (simp add: dict_get_def GET_request_def)
  have post: "dict_get [(''request'', PRequest \<lparr>req_method = ''POST'', req_headers = []\<rparr>)] ''request'' PNone
       = PRequest \<lparr>req_method = ''POST'', req_headers = []\<rparr>"
    by (simp add: dict_get_def)
  have key: "Cyrus_get_cache_key default_client (runtime_with server_up) get_items [PInt 1]
               [(''request'', GET_request [])] = Inr ''app.main.get_items(item_id=1)''"
    by code_simp
  have st: "status default_client = CONNECTED"
    by (simp add: default_client_def)
  have "\<exists>rest. events (snd (snd (inner_wrapper (runtime_with server_up) (Seconds 60) get_items
                   [PInt 1] [(''request'', GET_request [])] fresh_world)))
               = events connected_world @ Lookup ''app.main.get_items(item_id=1)'' # rest"
    using inner_wrapper_cacheability [OF call made, of "[(''request'', GET_request [])]"
            "Seconds 60" get_items "[PInt 1]", unfolded get]
    by (simp add: key st dict_get_def)
  moreover have "snd (snd (inner_wrapper (runtime_with server_up) (Seconds 60) get_items [PInt 1]
                 [(''request'', PRequest \<lparr>req_method = ''POST'', req_headers = []\<rparr>)] fresh_world))
       = log_event Invoked connected_world"
    using inner_wrapper_cacheability [OF call made,
            of "[(''request'', PRequest \<lparr>req_method = ''POST'', req_headers = []\<rparr>)]"
            "Seconds 60" get_items "[PInt 1]", unfolded post]
    by (simp add: st)
  ultimately show ?thesis
    using call made get post by blast
qed

text \<open>
  The claim as stated fails: a call that carries no request object is not passed
  through. The key is looked up, the handler is invoked and its result is stored.
\<close>

theorem no_request_is_cached:
  "dict_get [] ''request'' PNone = PNone
   \<and> take 3 (events (snd (snd (inner_wrapper (runtime_with server_up) (Seconds 60) get_items
                [PInt 1] [] fresh_world))))
       = [Connect, Lookup ''app.main.get_items(item_id=1)'', Invoked]
   \<and> map fst (store (snd (snd (inner_wrapper (runtime_with server_up) (Seconds 60) get_items
                [PInt 1] [] fresh_world))))
       = [''app.main.get_items(item_id=1)'']"
  by code_simp



text \<open>
  C1. When serializing the handler's result fails, the call should return the raw result
  with no error and no write. The code raises instead: \<^verbatim>\<open>add_to_cache\<close> returns \<^verbatim>\<open>False\<close>
  from its \<^verbatim>\<open>except TypeError\<close>, and \<^verbatim>\<open>inner_wrapper\<close> unpacks it into two names. For a
  handler that returns an object with a decimal field, the call raises \<^verbatim>\<open>TypeError\<close>;
  the store is not written.
\<close>

theorem unserializable_result_raises:
  "f_body get_price [PInt 1] [(''request'', GET_request [])]
     = Inr (PObj OtherClass ''<app.main.Price object>'' [(''price'', PDecimal ''19.99'')])
   \<and> serialized_messages (PObj OtherClass ''<app.main.Price object>'' [(''price'', PDecimal ''19.99'')])
     = Inl TypeError
   \<and> fst (inner_wrapper (runtime_with server_up) (Seconds 60) get_price [PInt 1]
             [(''request'', GET_request [])] fresh_world) = Inl TypeError
   \<and> events (snd (snd (inner_wrapper (runtime_with server_up) (Seconds 60) get_price [PInt 1]
             [(''request'', GET_request [])] fresh_world)))
     = [Connect, Lookup ''app.main.get_price(item_id=1)'', Invoked]
   \<and> store (snd (snd (inner_wrapper (runtime_with server_up) (Seconds 60) get_price [PInt 1]
             [(''request'', GET_request [])] fresh_world))) = []"
  by code_simp

text \<open>
  C3. Two identical GET calls: the first invokes the handler, stores an entry and returns
  the JSON text of the result; the second does not invoke the handler, but its body is
  the Python \<^verbatim>\<open>repr\<close> of the list of stored texts, not the body of the first call.
\<close>

theorem hit_body_differs_from_miss_body:
  "fst (inner_wrapper (runtime_with server_up) (Seconds 60) get_items [PInt 1]
          [(''request'', GET_request []), (''response'', PResponse Response_new)] fresh_world)
     = Inr (PStr ''[{\"id\": 1}]'')
   \<and> map fst (store (snd (snd (inner_wrapper (runtime_with server_up) (Seconds 60) get_items [PInt 1]
          [(''request'', GET_request []), (''response'', PResponse Response_new)] fresh_world))))
     = [''app.main.get_items(item_id=1)'']
   \<and> fst (inner_wrapper (runtime_with server_up) (Seconds 60) get_items [PInt 1]
          [(''request'', GET_request []), (''response'', PResponse Response_new)]
          (snd (snd (inner_wrapper (runtime_with server_up) (Seconds 60) get_items [PInt 1]
             [(''request'', GET_request []), (''response'', PResponse Response_new)] fresh_world))))
     = Inr (PStr (repr (PList [PStr ''{\"id\": 1}''])))
   \<and> repr (PList [PStr ''{\"id\": 1}'']) \<noteq> ''[{\"id\": 1}]''
   \<and> events (snd (snd (inner_wrapper (runtime_with server_up) (Seconds 60) get_items [PInt 1]
          [(''request'', GET_request []), (''response'', PResponse Response_new)]
          (snd (snd (inner_wrapper (runtime_with server_up) (Seconds 60) get_items [PInt 1]
             [(''request'', GET_request []), (''response'', PResponse Response_new)] fresh_world))))))
     = events (snd (snd (inner_wrapper (runtime_with server_up) (Seconds 60) get_items [PInt 1]
          [(''request'', GET_request []), (''response'', PResponse Response_new)] fresh_world)))
       @ [Lookup ''app.main.get_items(item_id=1)'']"
  by code_simp

text \<open>
  C6. On a hit with \<^verbatim>\<open>If-None-Match: *\<close> and no response object passed by the caller,
  the call raises \<^verbatim>\<open>TypeError\<close> (\<^verbatim>\<open>len(None)\<close> in \<^verbatim>\<open>create_response\<close>) instead of
  answering Not Modified; with a list of entity tags it raises \<^verbatim>\<open>AttributeError\<close>, since
  \<^verbatim>\<open>get_etag\<close> does not exist.
\<close>

theorem not_modified_raises:
  "fst (inner_wrapper (runtime_with server_up) (Seconds 60) get_items [PInt 1]
          [(''request'', GET_request [(''If-None-Match'', ''*'')])]
          (snd (snd (inner_wrapper (runtime_with server_up) (Seconds 60) get_items [PInt 1]
             [(''request'', GET_request [])] fresh_world))))
     = Inl TypeError
   \<and> fst (inner_wrapper (runtime_with server_up) (Seconds 60) get_items [PInt 1]
          [(''request'', GET_request [(''If-None-Match'', ''W/1, W/2'')]),
           (''response'', PResponse Response_new)]
          (snd (snd (inner_wrapper (runtime_with server_up) (Seconds 60) get_items [PInt 1]
             [(''request'', GET_request [])] fresh_world))))
     = Inl AttributeError
   \<and> requested_resource_not_modified (GET_request [(''If-None-Match'', ''W/1, W/2'')]) cached
     = Inl AttributeError
   \<and> create_response (PResponse Response_new) None True = Inl TypeError"
  by code_simp

text \<open>
  C7. An authentication failure gives the status CONN_ERROR, not AUTH_ERROR, and no
  outcome of a connection attempt gives AUTH_ERROR. When \<^verbatim>\<open>ping\<close> itself raises, the
  constructor raises, no instance is registered, and the decorated call raises.
\<close>

theorem authentication_failure_is_CONN_ERROR:
  "connect_generic (\<lambda>host pw pt. Connect_raises AuthenticationError) h p n = Inr (CONN_ERROR, None)
   \<and> connect_generic m h p n \<noteq> Inr (AUTH_ERROR, client)
   \<and> map_sum id status (Cyrus_init wrong_password default_config) = Inr CONN_ERROR
   \<and> fst (inner_wrapper (runtime_with server_down) (Seconds 60) get_items [PInt 1]
            [(''request'', GET_request [])] fresh_world) = Inl ConnectionError
   \<and> instances (snd (snd (inner_wrapper (runtime_with server_down) (Seconds 60) get_items [PInt 1]
            [(''request'', GET_request [])] fresh_world))) = None"
proof -
  have "connect_generic m h p n \<noteq> Inr (AUTH_ERROR, client)"
    by (auto simp: connect_generic_def split: connection.splits ping_reply.splits)
  moreover have "connect_generic (\<lambda>host pw pt. Connect_raises AuthenticationError) h p n
                 = Inr (CONN_ERROR, None)"
    by (simp add: connect_generic_def)
  moreover have "map_sum id status (Cyrus_init wrong_password default_config) = Inr CONN_ERROR"
    by (simp add: Cyrus_init_def redis_connect_def connect_generic_def wrong_password_def
          default_config_def)
  moreover have "fst (inner_wrapper (runtime_with server_down) (Seconds 60) get_items [PInt 1]
            [(''request'', GET_request [])] fresh_world) = Inl ConnectionError
   \<and> instances (snd (snd (inner_wrapper (runtime_with server_down) (Seconds 60) get_items [PInt 1]
            [(''request'', GET_request [])] fresh_world))) = None"
    by code_simp
  ultimately show ?thesis by blast
qed

end
